theory Spec2Isabelle
  imports Complex_Main "HOL-Library.Sublist"
begin

section \<open>Text of the Python runtime\<close>

text \<open>
  In \<open>hue.py\<close> a \<open>str\<close> is a list of Unicode code points, given as natural numbers:
  the manifest is decoded text and may hold any code point. The contents of a file are
  bytes, a list of 8-bit characters. \<open>ascii\<close> writes the \<open>str\<close> of an ASCII literal.
\<close>

type_synonym ustr = "nat list"

definition ascii :: "string \<Rightarrow> ustr" where
  "ascii s = map of_char s"

definition is_space :: "nat \<Rightarrow> bool" where
  \<comment> \<open>the code points that \<open>str.split()\<close> and \<open>str.strip()\<close> treat as whitespace\<close>
  "is_space c =
     ((9 \<le> c \<and> c \<le> 13) \<or> (28 \<le> c \<and> c \<le> 32) \<or> c = 0x85 \<or> c = 0xA0 \<or> c = 0x1680
      \<or> (0x2000 \<le> c \<and> c \<le> 0x200A) \<or> c = 0x2028 \<or> c = 0x2029 \<or> c = 0x202F
      \<or> c = 0x205F \<or> c = 0x3000)"

definition is_blank :: "ustr \<Rightarrow> bool" where
  \<comment> \<open>\<open>not line.strip()\<close>: stripping whitespace leaves the empty string.\<close>
  "is_blank l = list_all is_space l"

fun split_acc :: "ustr \<Rightarrow> ustr \<Rightarrow> ustr list" where
  "split_acc cur [] = (if cur = [] then [] else [rev cur])"
| "split_acc cur (c # cs) =
     (if is_space c then (if cur = [] then split_acc [] cs else rev cur # split_acc [] cs)
      else split_acc (c # cur) cs)"

definition split_ws :: "ustr \<Rightarrow> ustr list" where
  \<comment> \<open>\<open>line.split()\<close>: the maximal runs of non-whitespace code points, in order.\<close>
  "split_ws l = split_acc [] l"

definition path_join :: "ustr \<Rightarrow> ustr \<Rightarrow> ustr" where
  \<comment> \<open>\<open>os.path.join(a, b)\<close> of posixpath: an absolute \<open>b\<close> replaces \<open>a\<close>; 47 is the slash.\<close>
  "path_join a b =
     (if b \<noteq> [] \<and> hd b = 47 then b
      else if a = [] \<or> last a = 47 then a @ b
      else a @ 47 # b)"

section \<open>hue.py: the manifest verifier\<close>

text \<open>
  The file system as \<open>validate_theme\<close> sees it: a path is absent, or it exists and
  \<open>open\<close> yields its bytes, or it exists and \<open>open\<close> raises \<open>OSError\<close>
  (a directory, a file without read permission).
\<close>

datatype fs_entry = Regular string | No_access

type_synonym filesystem = "ustr \<Rightarrow> fs_entry option"

record config =
  default_theme :: ustr
  themes_dir :: ustr
  manifest_file :: ustr

datatype message =
    Msg_not_exist ustr           \<comment> \<open>\<open>Theme file ... does not exist.\<close>\<close>
  | Msg_hash_mismatch ustr       \<comment> \<open>\<open>Theme ... does not match expected hash.\<close>\<close>
  | Msg_not_in_manifest ustr     \<comment> \<open>\<open>Theme file ... not found in MANIFEST.\<close>\<close>
  | Msg_manifest_error           \<comment> \<open>\<open>Error reading MANIFEST file: ...\<close>\<close>

datatype event = Ev_exists ustr | Ev_open ustr | Ev_print message

datatype verify_error =
    Unpack_error
      \<comment> \<open>the \<open>ValueError\<close> of \<open>manifest_theme_file, expected_hash = line.split()\<close>\<close>
  | Unicode_decode_error
      \<comment> \<open>the \<open>UnicodeDecodeError\<close> of the text file, a \<open>ValueError\<close> too\<close>

text \<open>
  Two library functions are parameters of the model. \<open>H\<close> is
  \<open>hashlib.sha256(bytes).hexdigest()\<close>, from bytes to text. \<open>R\<close> is the reading of a
  file opened in text mode, \<open>for line in manifest\<close>: from the bytes of the file to the
  lines the iteration yields, each with its line end, and the way the iteration ends.
  The codec is the platform's, and the file is decoded in blocks as the loop asks for
  lines, so a byte the codec refuses ends the iteration with \<open>UnicodeDecodeError\<close> after
  the lines read before it; a failing read ends it with \<open>OSError\<close>.
  Every function returns the events it performed (existence tests, opens, prints) with
  its result; a raised exception is \<open>Inl\<close>.
\<close>

datatype read_end = End_of_file | Decode_error | Read_error

type_synonym text_reader = "string \<Rightarrow> ustr list \<times> read_end"

fun scan_manifest ::
  "(string \<Rightarrow> ustr) \<Rightarrow> ustr \<Rightarrow> filesystem \<Rightarrow> ustr \<Rightarrow> read_end \<Rightarrow> ustr list
     \<Rightarrow> event list \<times> (verify_error + bool)" where
  "scan_manifest H dir fs theme_file fin [] =
     (case fin of
        End_of_file \<Rightarrow> ([Ev_print (Msg_not_in_manifest theme_file)], Inr False)
      | Decode_error \<Rightarrow> ([], Inl Unicode_decode_error)
      | Read_error \<Rightarrow> ([Ev_print Msg_manifest_error], Inr False))"
| "scan_manifest H dir fs theme_file fin (line # rest) =
     (if is_blank line then scan_manifest H dir fs theme_file fin rest
      else (case split_ws line of
          [manifest_theme_file, expected_hash] \<Rightarrow>
            (if theme_file = path_join dir manifest_theme_file then
               (case fs theme_file of
                  Some (Regular bytes) \<Rightarrow>
                    (if H bytes \<noteq> expected_hash
                     then ([Ev_open theme_file, Ev_print (Msg_hash_mismatch theme_file)], Inr False)
                     else ([Ev_open theme_file], Inr True))
                | _ \<Rightarrow> ([Ev_open theme_file, Ev_print Msg_manifest_error], Inr False))
             else scan_manifest H dir fs theme_file fin rest)
        | _ \<Rightarrow> ([], Inl Unpack_error)))"

definition target_path :: "config \<Rightarrow> ustr option \<Rightarrow> ustr" where
  \<comment> \<open>\<open>if not theme_file: theme_file = os.path.join(themes_dir, default_theme)\<close>\<close>
  "target_path cfg arg =
     (case arg of
        None \<Rightarrow> path_join (themes_dir cfg) (default_theme cfg)
      | Some p \<Rightarrow> if p = [] then path_join (themes_dir cfg) (default_theme cfg) else p)"

definition manifest_path :: "config \<Rightarrow> ustr" where
  "manifest_path cfg = path_join (themes_dir cfg) (manifest_file cfg)"

definition validate_theme ::
  "(string \<Rightarrow> ustr) \<Rightarrow> text_reader \<Rightarrow> config \<Rightarrow> filesystem \<Rightarrow> ustr option
     \<Rightarrow> event list \<times> (verify_error + bool)" where
  "validate_theme H R cfg fs arg =
     (let theme_file = target_path cfg arg in
      if fs theme_file = None
      then ([Ev_exists theme_file, Ev_print (Msg_not_exist theme_file)], Inr False)
      else (case fs (manifest_path cfg) of
          Some (Regular bytes) \<Rightarrow>
            (let (evs, r) = scan_manifest H (themes_dir cfg) fs theme_file
                              (snd (R bytes)) (fst (R bytes))
             in (Ev_exists theme_file # Ev_open (manifest_path cfg) # evs, r))
        | _ \<Rightarrow> ([Ev_exists theme_file, Ev_open (manifest_path cfg),
                  Ev_print Msg_manifest_error], Inr False)))"

subsection \<open>The manifest as the specification describes it\<close>

text \<open>
  A manifest entry is a line with exactly two whitespace-separated tokens, the file name
  and the recorded digest. A manifest is well formed when every non-blank line is an
  entry. The recorded digest of a target path is the digest of the first entry whose
  name, joined with the themes directory, is the target path.
\<close>

definition entry_of :: "ustr \<Rightarrow> (ustr \<times> ustr) option" where
  "entry_of l = (case split_ws l of [n, h] \<Rightarrow> Some (n, h) | _ \<Rightarrow> None)"

definition well_formed :: "ustr list \<Rightarrow> bool" where
  "well_formed ls = list_all (\<lambda>l. is_blank l \<or> length (split_ws l) = 2) ls"

definition entries :: "ustr list \<Rightarrow> (ustr \<times> ustr) list" where
  "entries ls = List.map_filter entry_of ls"

definition names_target :: "ustr \<Rightarrow> ustr \<Rightarrow> ustr \<times> ustr \<Rightarrow> bool" where
  "names_target dir theme_file e = (path_join dir (fst e) = theme_file)"

definition recorded_digest :: "ustr \<Rightarrow> ustr \<Rightarrow> ustr list \<Rightarrow> ustr option" where
  "recorded_digest dir theme_file ls =
     map_option snd (find (names_target dir theme_file) (entries ls))"

subsection \<open>Sample configuration, reader, digests and file systems\<close>

text \<open>
  \<open>ascii_reader\<close> is the reading of a file with the ASCII codec and universal newlines
  (CR LF and a lone CR are read as LF; each line keeps its LF, a last line without one
  is kept too): a reader for the samples, which are ASCII.
\<close>

fun translate_newlines :: "ustr \<Rightarrow> ustr" where
  "translate_newlines [] = []"
| "translate_newlines [c] = [if c = 13 then 10 else c]"
| "translate_newlines (c # d # cs) =
     (if c = 13 \<and> d = 10 then 10 # translate_newlines cs
      else if c = 13 then 10 # translate_newlines (d # cs)
      else c # translate_newlines (d # cs))"

fun keep_lines :: "ustr \<Rightarrow> ustr list" where
  "keep_lines [] = []"
| "keep_lines (c # cs) =
     (if c = 10 then [c] # keep_lines cs
      else (case keep_lines cs of [] \<Rightarrow> [[c]] | l # ls \<Rightarrow> (c # l) # ls))"

definition ascii_reader :: text_reader where
  "ascii_reader bytes =
     (if list_all (\<lambda>c. (of_char c :: nat) < 128) bytes
      then (keep_lines (translate_newlines (ascii bytes)), End_of_file)
      else ([], Decode_error))"

definition default_config :: config where
  \<comment> \<open>the defaults of \<open>ThemeManager.__init__\<close> when \<open>hue.config\<close> gives none\<close>
  "default_config =
     \<lparr>default_theme = ascii ''monokai'', themes_dir = ascii ''themes.d'',
      manifest_file = ascii ''MANIFEST''\<rparr>"

definition hex_braces :: string where
  \<comment> \<open>the SHA-256 hex digest of the two bytes \<open>{}\<close>\<close>
  "hex_braces = ''44136fa355b3678a1146ad16f7e8649e94fb4fc21fe77e8310c060f61caaff8a''"

definition hex_empty :: string where
  \<comment> \<open>the SHA-256 hex digest of the empty file\<close>
  "hex_empty = ''e3b0c44298fc1c149afbf4c8996fb92427ae41e4649b934ca495991b7852b855''"

definition sample_sha256 :: "string \<Rightarrow> ustr" where
  \<comment> \<open>a digest function that agrees with SHA-256 on the sample contents\<close>
  "sample_sha256 bytes =
     (if bytes = ''{}'' then ascii hex_braces else if bytes = [] then ascii hex_empty else [])"

definition line_monokai :: string where
  "line_monokai = ''monokai '' @ hex_braces @ ''\<newline>''"

definition line_monokai_stale :: string where
  "line_monokai_stale = ''monokai ffffffff\<newline>''"

definition line_solarized :: string where
  "line_solarized = ''solarized '' @ hex_empty @ ''\<newline>''"

definition line_solarized_braces :: string where
  "line_solarized_braces = ''solarized '' @ hex_braces @ ''\<newline>''"

definition line_three :: string where
  "line_three = ''one two three\<newline>''"

definition line_garbage :: string where
  "line_garbage = ''garbage\<newline>''"

definition manifest_listed :: string where
  "manifest_listed = line_solarized @ ''\<newline>'' @ line_monokai @ line_monokai_stale"

definition manifest_late_garbage :: string where
  "manifest_late_garbage = line_monokai @ line_garbage"

definition manifest_early_garbage :: string where
  "manifest_early_garbage = line_solarized @ line_three @ line_monokai"

definition theme_path :: ustr where
  "theme_path = ascii ''themes.d/monokai''"

definition manifest_file_path :: ustr where
  "manifest_file_path = ascii ''themes.d/MANIFEST''"

definition fs_listed :: filesystem where
  "fs_listed =
     [theme_path \<mapsto> Regular ''{}'', manifest_file_path \<mapsto> Regular manifest_listed]"

definition fs_tampered :: filesystem where
  "fs_tampered =
     [theme_path \<mapsto> Regular [], manifest_file_path \<mapsto> Regular manifest_listed]"

definition fs_no_theme :: filesystem where
  "fs_no_theme = [manifest_file_path \<mapsto> Regular line_monokai]"

definition fs_unlisted :: filesystem where
  "fs_unlisted =
     [theme_path \<mapsto> Regular ''{}'', manifest_file_path \<mapsto> Regular line_solarized_braces]"

definition fs_only_garbage :: filesystem where
  "fs_only_garbage =
     [theme_path \<mapsto> Regular ''{}'', manifest_file_path \<mapsto> Regular line_garbage]"

definition fs_late_garbage :: filesystem where
  "fs_late_garbage =
     [theme_path \<mapsto> Regular ''{}'', manifest_file_path \<mapsto> Regular manifest_late_garbage]"

definition fs_early_garbage :: filesystem where
  "fs_early_garbage =
     [theme_path \<mapsto> Regular ''{}'', manifest_file_path \<mapsto> Regular manifest_early_garbage]"

definition fs_manifest_dir :: filesystem where
  "fs_manifest_dir = [theme_path \<mapsto> Regular ''{}'', manifest_file_path \<mapsto> No_access]"

section \<open>src/huefy/esc_builder.py: the escape code builder\<close>

text \<open>
  In \<open>esc_builder.py\<close> a \<open>str\<close> is a list of 8-bit characters, its code points,
  which are below 256; among these the decimal digits are the ASCII digits.
\<close>

subsection \<open>Integers as text\<close>

definition is_number_space :: "char \<Rightarrow> bool" where
  \<comment> \<open>the code points below 256 that \<open>int\<close> and \<open>float\<close> strip from both ends of a string\<close>
  "is_number_space c =
     (let n = (of_char c :: nat) in (9 \<le> n \<and> n \<le> 13) \<or> n = 32 \<or> n = 0x85 \<or> n = 0xA0)"

definition hex_digit :: "char \<Rightarrow> nat option" where
  \<comment> \<open>the value of an ASCII hexadecimal digit, in either case\<close>
  "hex_digit c =
     (let n = (of_char c :: nat) in
      if 48 \<le> n \<and> n \<le> 57 then Some (n - 48)
      else if 97 \<le> n \<and> n \<le> 102 then Some (n - 87)
      else if 65 \<le> n \<and> n \<le> 70 then Some (n - 55)
      else None)"

definition in_literal :: "char \<Rightarrow> bool" where
  "in_literal c = (hex_digit c \<noteq> None \<or> c = CHR ''_'')"

fun no_double_underscore :: "string \<Rightarrow> bool" where
  "no_double_underscore (c # d # cs) =
     (\<not> (c = CHR ''_'' \<and> d = CHR ''_'') \<and> no_double_underscore (d # cs))"
| "no_double_underscore cs = True"

definition valid_body :: "string \<Rightarrow> bool" where
  \<comment> \<open>digits with single underscores between them only\<close>
  "valid_body body =
     (body \<noteq> [] \<and> hd body \<noteq> CHR ''_'' \<and> last body \<noteq> CHR ''_''
      \<and> no_double_underscore body)"

fun body_value :: "int \<Rightarrow> string \<Rightarrow> int" where
  "body_value acc [] = acc"
| "body_value acc (c # cs) =
     (case hex_digit c of
        None \<Rightarrow> body_value acc cs
      | Some v \<Rightarrow> body_value (16 * acc + int v) cs)"

definition strip_base_prefix :: "string \<Rightarrow> string" where
  \<comment> \<open>base 16 accepts \<open>0x\<close> or \<open>0X\<close> before the digits, and one underscore after it\<close>
  "strip_base_prefix s =
     (case s of
        z # x # r \<Rightarrow>
          if z = CHR ''0'' \<and> (x = CHR ''x'' \<or> x = CHR ''X'')
          then (case r of u # r' \<Rightarrow> if u = CHR ''_'' then r' else r | [] \<Rightarrow> r)
          else s
      | _ \<Rightarrow> s)"

definition py_int16 :: "string \<Rightarrow> int option" where
  \<comment> \<open>\<open>int(s, 16)\<close>: surrounding whitespace, a sign, a base prefix, the digits;
      \<open>None\<close> is the \<open>ValueError\<close> for an invalid literal\<close>
  "py_int16 s =
     (let s1 = dropWhile is_number_space s;
          negative_sign = (s1 \<noteq> [] \<and> hd s1 = CHR ''-'');
          s2 = (if s1 \<noteq> [] \<and> (hd s1 = CHR ''-'' \<or> hd s1 = CHR ''+'') then tl s1 else s1);
          s3 = strip_base_prefix s2;
          body = takeWhile in_literal s3;
          rest = dropWhile in_literal s3
      in if valid_body body \<and> list_all is_number_space rest
         then Some (if negative_sign then - body_value 0 body else body_value 0 body)
         else None)"

fun str_nat :: "nat \<Rightarrow> string" where
  "str_nat n =
     (if n < 10 then [''0123456789'' ! n]
      else str_nat (n div 10) @ [''0123456789'' ! (n mod 10)])"

declare str_nat.simps [simp del]

definition str_int :: "int \<Rightarrow> string" where
  \<comment> \<open>the decimal text an f-string gives an \<open>int\<close>\<close>
  "str_int i = (if i < 0 then CHR ''-'' # str_nat (nat (- i)) else str_nat (nat i))"

fun join :: "string \<Rightarrow> string list \<Rightarrow> string" where
  \<comment> \<open>\<open>sep.join(xs)\<close>\<close>
  "join sep [] = []"
| "join sep [x] = x"
| "join sep (x # y # ys) = x @ sep @ join sep (y # ys)"

subsection \<open>Floating point numbers\<close>

text \<open>
  A Python \<open>float\<close> is an IEEE 754 binary64 number: a finite value, which is a rational
  number, an infinity, or a NaN. The two zeros are one value here: no operation below
  tells them apart. Each arithmetic operation gives the exact result rounded to the
  nearest binary64 number, ties to the even significand, and an infinity beyond the
  largest finite number.
\<close>

datatype pyfloat = Finite rat | Pos_inf | Neg_inf | Nan

fun bit_length :: "nat \<Rightarrow> nat" where
  "bit_length n = (if n = 0 then 0 else Suc (bit_length (n div 2)))"

declare bit_length.simps [simp del]

definition floor_log2 :: "rat \<Rightarrow> int" where
  \<comment> \<open>for \<open>0 < a\<close>, the \<open>e\<close> with \<open>2 ^ e \<le> a < 2 ^ (e + 1)\<close>\<close>
  "floor_log2 a =
     (if 1 \<le> a then int (bit_length (nat \<lfloor>a\<rfloor>)) - 1
      else - int (bit_length (nat (\<lceil>1 / a\<rceil> - 1))))"

definition pow2 :: "int \<Rightarrow> rat" where
  "pow2 k = (if 0 \<le> k then 2 ^ nat k else 1 / 2 ^ nat (- k))"

definition round_half_even :: "rat \<Rightarrow> int" where
  "round_half_even x =
     (let f = \<lfloor>x\<rfloor>; r = x - of_int f
      in if r < 1 / 2 then f else if 1 / 2 < r then f + 1
         else if even f then f else f + 1)"

definition round_double :: "rat \<Rightarrow> pyfloat" where
  \<comment> \<open>53 significant bits, exponents from -1022 (below it the spacing stays
      \<open>2 ^ -1074\<close>), overflow at \<open>2 ^ 1024\<close>\<close>
  "round_double q =
     (if q = 0 then Finite 0
      else
        let a = \<bar>q\<bar>;
            e = max (floor_log2 a) (- 1022);
            ulp = pow2 (e - 52);
            m = of_int (round_half_even (a / ulp)) * ulp
        in if pow2 1024 \<le> m then (if 0 < q then Pos_inf else Neg_inf)
           else Finite (if 0 < q then m else - m))"

fun fneg :: "pyfloat \<Rightarrow> pyfloat" where
  "fneg (Finite x) = Finite (- x)"
| "fneg Pos_inf = Neg_inf"
| "fneg Neg_inf = Pos_inf"
| "fneg Nan = Nan"

fun fadd :: "pyfloat \<Rightarrow> pyfloat \<Rightarrow> pyfloat" where
  "fadd (Finite x) (Finite y) = round_double (x + y)"
| "fadd Nan y = Nan"
| "fadd x Nan = Nan"
| "fadd Pos_inf Neg_inf = Nan"
| "fadd Neg_inf Pos_inf = Nan"
| "fadd Pos_inf y = Pos_inf"
| "fadd Neg_inf y = Neg_inf"
| "fadd x Pos_inf = Pos_inf"
| "fadd x Neg_inf = Neg_inf"

definition fsub :: "pyfloat \<Rightarrow> pyfloat \<Rightarrow> pyfloat" where
  "fsub x y = fadd x (fneg y)"

definition signed_inf :: "bool \<Rightarrow> pyfloat" where
  "signed_inf positive = (if positive then Pos_inf else Neg_inf)"

fun fmul :: "pyfloat \<Rightarrow> pyfloat \<Rightarrow> pyfloat" where
  "fmul (Finite x) (Finite y) = round_double (x * y)"
| "fmul Nan y = Nan"
| "fmul x Nan = Nan"
| "fmul (Finite x) Pos_inf = (if x = 0 then Nan else signed_inf (0 < x))"
| "fmul (Finite x) Neg_inf = (if x = 0 then Nan else signed_inf (x < 0))"
| "fmul Pos_inf (Finite y) = (if y = 0 then Nan else signed_inf (0 < y))"
| "fmul Neg_inf (Finite y) = (if y = 0 then Nan else signed_inf (y < 0))"
| "fmul Pos_inf Pos_inf = Pos_inf"
| "fmul Neg_inf Neg_inf = Pos_inf"
| "fmul Pos_inf Neg_inf = Neg_inf"
| "fmul Neg_inf Pos_inf = Neg_inf"

fun fdiv :: "pyfloat \<Rightarrow> rat \<Rightarrow> pyfloat" where
  \<comment> \<open>division by a positive constant, 360 or 100\<close>
  "fdiv (Finite x) c = round_double (x / c)"
| "fdiv x c = x"

definition truncate :: "rat \<Rightarrow> int" where
  \<comment> \<open>the integer part, rounding toward zero\<close>
  "truncate q = (if 0 \<le> q then \<lfloor>q\<rfloor> else \<lceil>q\<rceil>)"

fun fmod1 :: "pyfloat \<Rightarrow> pyfloat" where
  \<comment> \<open>\<open>x % 1.0\<close>: the exact remainder with the sign of \<open>x\<close>, plus 1.0 when negative\<close>
  "fmod1 (Finite x) =
     (let m = x - of_int (truncate x)
      in if m < 0 then round_double (m + 1) else Finite m)"
| "fmod1 x = Nan"

fun flt :: "pyfloat \<Rightarrow> pyfloat \<Rightarrow> bool" where
  \<comment> \<open>\<open>x < y\<close>; false when either is a NaN\<close>
  "flt (Finite x) (Finite y) = (x < y)"
| "flt Nan y = False"
| "flt x Nan = False"
| "flt x Neg_inf = False"
| "flt Pos_inf y = False"
| "flt Neg_inf y = True"
| "flt x Pos_inf = True"

fun fle :: "pyfloat \<Rightarrow> pyfloat \<Rightarrow> bool" where
  \<comment> \<open>\<open>x <= y\<close>; false when either is a NaN\<close>
  "fle (Finite x) (Finite y) = (x \<le> y)"
| "fle Nan y = False"
| "fle x Nan = False"
| "fle Neg_inf y = True"
| "fle x Pos_inf = True"
| "fle Pos_inf y = False"
| "fle x Neg_inf = False"

subsection \<open>colorsys.hls_to_rgb\<close>

definition ONE_THIRD :: pyfloat where "ONE_THIRD = fdiv (Finite 1) 3"
definition ONE_SIXTH :: pyfloat where "ONE_SIXTH = fdiv (Finite 1) 6"
definition TWO_THIRD :: pyfloat where "TWO_THIRD = fdiv (Finite 2) 3"

definition colorsys_v :: "pyfloat \<Rightarrow> pyfloat \<Rightarrow> pyfloat \<Rightarrow> pyfloat" where
  \<comment> \<open>\<open>colorsys._v(m1, m2, hue)\<close>\<close>
  "colorsys_v m1 m2 hue =
     (let hue = fmod1 hue in
      if flt hue ONE_SIXTH then fadd m1 (fmul (fmul (fsub m2 m1) hue) (Finite 6))
      else if flt hue (Finite (1 / 2)) then m2
      else if flt hue TWO_THIRD
        then fadd m1 (fmul (fmul (fsub m2 m1) (fsub TWO_THIRD hue)) (Finite 6))
      else m1)"

definition hls_to_rgb :: "pyfloat \<Rightarrow> pyfloat \<Rightarrow> pyfloat \<Rightarrow> pyfloat \<times> pyfloat \<times> pyfloat" where
  "hls_to_rgb h l s =
     (if s = Finite 0 then (l, l, l)
      else
        let m2 = (if fle l (Finite (1 / 2)) then fmul l (fadd (Finite 1) s)
                  else fsub (fadd l s) (fmul l s));
            m1 = fsub (fmul (Finite 2) l) m2
        in (colorsys_v m1 m2 (fadd h ONE_THIRD), colorsys_v m1 m2 h, colorsys_v m1 m2 (fsub h ONE_THIRD)))"

subsection \<open>Floating point numbers as text\<close>

definition is_digit :: "char \<Rightarrow> bool" where
  "is_digit c = (let n = (of_char c :: nat) in 48 \<le> n \<and> n \<le> 57)"

fun digits_value :: "nat \<Rightarrow> string \<Rightarrow> nat" where
  "digits_value acc [] = acc"
| "digits_value acc (c # cs) = digits_value (10 * acc + (of_char c - 48)) cs"

fun underscores_between_digits :: "char \<Rightarrow> string \<Rightarrow> bool" where
  \<comment> \<open>every underscore stands after a digit and before a digit\<close>
  "underscores_between_digits prev [] = True"
| "underscores_between_digits prev (c # cs) =
     ((c = CHR ''_'' \<longrightarrow> is_digit prev \<and> cs \<noteq> [] \<and> is_digit (hd cs))
      \<and> underscores_between_digits c cs)"

definition strip_number_space :: "string \<Rightarrow> string" where
  "strip_number_space s =
     rev (dropWhile is_number_space (rev (dropWhile is_number_space s)))"

definition lower :: "char \<Rightarrow> char" where
  "lower c =
     (let n = (of_char c :: nat) in if 65 \<le> n \<and> n \<le> 90 then char_of (n + 32) else c)"

definition parse_exponent :: "string \<Rightarrow> int option" where
  \<comment> \<open>nothing, or \<open>e\<close> or \<open>E\<close>, an optional sign and at least one digit\<close>
  "parse_exponent s =
     (case s of
        [] \<Rightarrow> Some 0
      | c # r \<Rightarrow>
          if c = CHR ''e'' \<or> c = CHR ''E'' then
            (let negative_sign = (r \<noteq> [] \<and> hd r = CHR ''-'');
                 d = (if r \<noteq> [] \<and> (hd r = CHR ''-'' \<or> hd r = CHR ''+'') then tl r else r)
             in if d \<noteq> [] \<and> list_all is_digit d
                then Some (if negative_sign then - int (digits_value 0 d)
                           else int (digits_value 0 d))
                else None)
          else None)"

definition parse_decimal :: "string \<Rightarrow> rat option" where
  \<comment> \<open>digits, an optional point and digits, with a digit on one side at least, then
      the exponent\<close>
  "parse_decimal s =
     (let ip = takeWhile is_digit s;
          r1 = dropWhile is_digit s;
          has_point = (r1 \<noteq> [] \<and> hd r1 = CHR ''.'');
          fp = (if has_point then takeWhile is_digit (tl r1) else []);
          r2 = (if has_point then dropWhile is_digit (tl r1) else r1)
      in if ip = [] \<and> fp = [] then None
         else (case parse_exponent r2 of
             None \<Rightarrow> None
           | Some ex \<Rightarrow>
               Some (of_nat (digits_value 0 (ip @ fp))
                     * (let k = ex - int (length fp)
                        in if 0 \<le> k then 10 ^ nat k else 1 / 10 ^ nat (- k)))))"

definition py_float :: "string \<Rightarrow> pyfloat option" where
  \<comment> \<open>\<open>float(s)\<close>; \<open>None\<close> is the \<open>ValueError\<close>\<close>
  "py_float s =
     (if \<not> underscores_between_digits CHR '' '' s then None
      else
        let s1 = strip_number_space (filter (\<lambda>c. c \<noteq> CHR ''_'') s);
            negative_sign = (s1 \<noteq> [] \<and> hd s1 = CHR ''-'');
            s2 = (if s1 \<noteq> [] \<and> (hd s1 = CHR ''-'' \<or> hd s1 = CHR ''+'') then tl s1 else s1);
            w = map lower s2
        in if w = ''inf'' \<or> w = ''infinity'' then Some (signed_inf (\<not> negative_sign))
           else if w = ''nan'' then Some Nan
           else (case parse_decimal s2 of
               None \<Rightarrow> None
             | Some q \<Rightarrow> Some (round_double (if negative_sign then - q else q))))"

subsection \<open>Colors\<close>

datatype error =
    Invalid_color_spec        \<comment> \<open>\<open>ValueError\<close>: neither a color string nor an RGB tuple\<close>
  | Invalid_hex_format        \<comment> \<open>\<open>ValueError\<close>: \<open>Invalid HEX color format.\<close>\<close>
  | Unsupported_color_format  \<comment> \<open>\<open>ValueError\<close>: \<open>Unsupported color format. Use HEX or HSL.\<close>\<close>
  | Unsupported_theme         \<comment> \<open>\<open>ValueError\<close>: \<open>Unsupported theme. Use 'dark' or 'light'.\<close>\<close>
  | Invalid_literal           \<comment> \<open>\<open>ValueError\<close> of \<open>int(s, 16)\<close> or \<open>float(s)\<close>\<close>
  | Unpack_rgb                \<comment> \<open>\<open>ValueError\<close> of \<open>r, g, b = rgb\<close>\<close>
  | Index_error               \<comment> \<open>\<open>IndexError\<close> of \<open>hsl[1]\<close>, \<open>hsl[2]\<close>\<close>
  | Overflow_error            \<comment> \<open>\<open>OverflowError\<close> of \<open>int\<close> on an infinite float\<close>
  | Nan_to_int                \<comment> \<open>\<open>ValueError\<close> of \<open>int\<close> on a NaN\<close>
  | Int_str_limit             \<comment> \<open>\<open>ValueError\<close>: an integer of more than 4300 digits as text\<close>

type_synonym rgb = "int \<times> int \<times> int"

type_synonym hsl_branch = "string \<Rightarrow> error + rgb"

fun split_on :: "char \<Rightarrow> string \<Rightarrow> string list" where
  \<comment> \<open>\<open>s.split(sep)\<close> for a separator of one character: empty pieces are kept\<close>
  "split_on sep [] = [[]]"
| "split_on sep (c # cs) =
     (if c = sep then [] # split_on sep cs
      else (case split_on sep cs of p # ps \<Rightarrow> (c # p) # ps | [] \<Rightarrow> [[c]]))"

definition strip_percent :: "string \<Rightarrow> string" where
  \<comment> \<open>\<open>s.strip('%')\<close>\<close>
  "strip_percent s =
     rev (dropWhile (\<lambda>c. c = CHR ''%'') (rev (dropWhile (\<lambda>c. c = CHR ''%'') s)))"

definition to_int :: "pyfloat \<Rightarrow> error + int" where
  \<comment> \<open>\<open>int(x)\<close> of a float: truncation toward zero\<close>
  "to_int x =
     (case x of
        Finite q \<Rightarrow> Inr (truncate q)
      | Nan \<Rightarrow> Inl Nan_to_int
      | _ \<Rightarrow> Inl Overflow_error)"

definition scale_channels :: "pyfloat \<times> pyfloat \<times> pyfloat \<Rightarrow> error + rgb" where
  \<comment> \<open>\<open>int(r * 255), int(g * 255), int(b * 255)\<close>\<close>
  "scale_channels c =
     (case c of (r, g, b) \<Rightarrow>
        (case to_int (fmul r (Finite 255)) of
           Inl e \<Rightarrow> Inl e
         | Inr ri \<Rightarrow>
             (case to_int (fmul g (Finite 255)) of
                Inl e \<Rightarrow> Inl e
              | Inr gi \<Rightarrow>
                  (case to_int (fmul b (Finite 255)) of
                     Inl e \<Rightarrow> Inl e
                   | Inr bi \<Rightarrow> Inr (ri, gi, bi)))))"

definition normalize_hsl :: "string \<Rightarrow> error + rgb" where
  \<comment> \<open>the HSL branch of \<open>_normalize_color\<close>, lines 210 to 213\<close>
  "normalize_hsl color =
     (case split_on CHR '','' (butlast (drop 4 color)) of
        [] \<Rightarrow> Inl Index_error
      | h0 # rest \<Rightarrow>
          (case py_float h0 of
             None \<Rightarrow> Inl Invalid_literal
           | Some h \<Rightarrow>
               (case rest of
                  [] \<Rightarrow> Inl Index_error
                | s0 # rest' \<Rightarrow>
                    (case py_float (strip_percent s0) of
                       None \<Rightarrow> Inl Invalid_literal
                     | Some s \<Rightarrow>
                         (case rest' of
                            [] \<Rightarrow> Inl Index_error
                          | l0 # rest'' \<Rightarrow>
                              (case py_float (strip_percent l0) of
                                 None \<Rightarrow> Inl Invalid_literal
                               | Some l \<Rightarrow>
                                   scale_channels
                                     (hls_to_rgb (fdiv h 360) (fdiv l 100) (fdiv s 100))))))))"

text \<open>
  \<open>_normalize_color\<close> is modelled with its HSL branch as an argument \<open>hsl\<close>, so
  that what is proved of the hex branch and of the builder holds whatever the HSL branch
  computes or raises; \<open>normalize_hsl\<close> is the branch as the source has it, and
  \<open>normalize_color normalize_hsl\<close> is the method.
\<close>

definition normalize_color :: "hsl_branch \<Rightarrow> string \<Rightarrow> error + rgb" where
  "normalize_color hsl color =
     (if prefix ''#'' color then
        (let color = dropWhile (\<lambda>c. c = CHR ''#'') color in
         if length color = 6 then
           (case (py_int16 (take 2 color), py_int16 (take 2 (drop 2 color)),
                  py_int16 (take 2 (drop 4 color))) of
              (Some r, Some g, Some b) \<Rightarrow> Inr (r, g, b)
            | _ \<Rightarrow> Inl Invalid_literal)
         else if length color = 3 then
           (case map (\<lambda>c. py_int16 [c, c]) color of
              [Some r, Some g, Some b] \<Rightarrow> Inr (r, g, b)
            | _ \<Rightarrow> Inl Invalid_literal)
         else Inl Invalid_hex_format)
      else if prefix ''hsl('' color then hsl color
      else Inl Unsupported_color_format)"

subsection \<open>The builder\<close>

record builder =
  styles :: "string list"
  fg_color :: "string option"
  bg_color :: "string option"
  theme :: string
  negative :: bool

text \<open>
  A method takes the builder and returns its result with the builder as the call leaves
  it, also when it raises; \<open>Inr ()\<close> stands for \<open>return self\<close>. The RGB tuple is a
  tuple of integers.
\<close>

definition DEFAULT_COLORS :: "string \<Rightarrow> (string \<times> string) option" where
  \<comment> \<open>theme name to the pair of the \<open>fg\<close> and \<open>bg\<close> colors\<close>
  "DEFAULT_COLORS =
     [''dark'' \<mapsto> (''#e0e0e0'', ''#1e1e1e''), ''light'' \<mapsto> (''#2e2e2e'', ''#f0f0f0'')]"

definition sgr_token :: "string \<Rightarrow> rgb \<Rightarrow> string" where
  \<comment> \<open>\<open>f'38;2;{r};{g};{b}'\<close> and \<open>f'48;2;{r};{g};{b}'\<close>\<close>
  "sgr_token lead c =
     (case c of (r, g, b) \<Rightarrow> lead @ '';2;'' @ str_int r @ '';'' @ str_int g @ '';'' @ str_int b)"

definition within_str_limit :: "rgb \<Rightarrow> bool" where
  \<comment> \<open>the f-string raises \<open>ValueError\<close> for an integer of more than 4300 digits (the
      default limit of CPython 3.11)\<close>
  "within_str_limit c =
     (case c of (r, g, b) \<Rightarrow>
        length (str_nat (nat \<bar>r\<bar>)) \<le> 4300 \<and> length (str_nat (nat \<bar>g\<bar>)) \<le> 4300
        \<and> length (str_nat (nat \<bar>b\<bar>)) \<le> 4300)"

definition color_argument ::
  "hsl_branch \<Rightarrow> string option \<Rightarrow> int list option \<Rightarrow> error + rgb" where
  \<comment> \<open>\<open>if color: ... elif rgb: r, g, b = rgb else: raise ValueError\<close>\<close>
  "color_argument hsl color rgb =
     (if color \<noteq> None \<and> color \<noteq> Some [] then normalize_color hsl (the color)
      else if rgb \<noteq> None \<and> rgb \<noteq> Some [] then
        (case the rgb of [r, g, b] \<Rightarrow> Inr (r, g, b) | _ \<Rightarrow> Inl Unpack_rgb)
      else Inl Invalid_color_spec)"

definition set_bold :: "builder \<Rightarrow> bool \<Rightarrow> (error + unit) \<times> builder" where
  "set_bold self enabled =
     (Inr (), self\<lparr>styles := styles self @ [if enabled then ''1'' else ''22'']\<rparr>)"

definition set_italic :: "builder \<Rightarrow> bool \<Rightarrow> (error + unit) \<times> builder" where
  "set_italic self enabled =
     (Inr (), self\<lparr>styles := styles self @ [if enabled then ''3'' else ''23'']\<rparr>)"

definition set_underline :: "builder \<Rightarrow> bool \<Rightarrow> (error + unit) \<times> builder" where
  "set_underline self enabled =
     (Inr (), self\<lparr>styles := styles self @ [if enabled then ''4'' else ''24'']\<rparr>)"

definition set_fg_color ::
  "hsl_branch \<Rightarrow> builder \<Rightarrow> string option \<Rightarrow> int list option \<Rightarrow> (error + unit) \<times> builder" where
  "set_fg_color hsl self color rgb =
     (case color_argument hsl color rgb of
        Inl e \<Rightarrow> (Inl e, self)
      | Inr c \<Rightarrow>
          if within_str_limit c then (Inr (), self\<lparr>fg_color := Some (sgr_token ''38'' c)\<rparr>)
          else (Inl Int_str_limit, self))"

definition set_bg_color ::
  "hsl_branch \<Rightarrow> builder \<Rightarrow> string option \<Rightarrow> int list option \<Rightarrow> (error + unit) \<times> builder" where
  "set_bg_color hsl self color rgb =
     (case color_argument hsl color rgb of
        Inl e \<Rightarrow> (Inl e, self)
      | Inr c \<Rightarrow>
          if within_str_limit c then (Inr (), self\<lparr>bg_color := Some (sgr_token ''48'' c)\<rparr>)
          else (Inl Int_str_limit, self))"

definition set_default_colors :: "hsl_branch \<Rightarrow> builder \<Rightarrow> (error + unit) \<times> builder" where
  "set_default_colors hsl self =
     (case DEFAULT_COLORS (theme self) of
        None \<Rightarrow> (Inl Unsupported_theme, self)
      | Some (fg, bg) \<Rightarrow>
          (case set_fg_color hsl self (Some fg) None of
             (Inl e, self') \<Rightarrow> (Inl e, self')
           | (Inr u, self') \<Rightarrow> set_bg_color hsl self' (Some bg) None))"

definition set_theme :: "hsl_branch \<Rightarrow> builder \<Rightarrow> string \<Rightarrow> (error + unit) \<times> builder" where
  "set_theme hsl self name = set_default_colors hsl (self\<lparr>theme := name\<rparr>)"

definition set_negative :: "builder \<Rightarrow> bool \<Rightarrow> (error + unit) \<times> builder" where
  "set_negative self enabled = (Inr (), self\<lparr>negative := enabled\<rparr>)"

definition init :: "hsl_branch \<Rightarrow> string \<Rightarrow> error + builder" where
  \<comment> \<open>\<open>__init__(theme)\<close>: a constructor that raises yields no builder\<close>
  "init hsl name =
     (case set_default_colors hsl
             \<lparr>styles = [], fg_color = None, bg_color = None, theme = name, negative = False\<rparr> of
        (Inl e, self) \<Rightarrow> Inl e
      | (Inr u, self) \<Rightarrow> Inr self)"

definition stored :: "string option \<Rightarrow> string list" where
  \<comment> \<open>\<open>if self._fg_color: codes.append(self._fg_color)\<close>: \<open>None\<close> and the empty string add nothing\<close>
  "stored token = (case token of None \<Rightarrow> [] | Some t \<Rightarrow> if t = [] then [] else [t])"

definition build :: "builder \<Rightarrow> string \<times> builder" where
  "build self =
     (let self = (if negative self
                  then self\<lparr>fg_color := bg_color self, bg_color := fg_color self\<rparr>
                  else self);
          codes = stored (fg_color self) @ stored (bg_color self) @ styles self
      in (CHR 0x1B # CHR ''['' # join '';'' codes @ ''m'', self))"
subsection \<open>Sample builders and the shape of color tokens\<close>

text \<open>
  \<open>construct_fg_build\<close> is the call sequence
  \<open>AnsiEscapeCodeBuilder(theme).set_fg_color(rgb=...).build()\<close>. A color token as the
  setters store it is non-empty and has four semicolons.
\<close>

definition dark_builder :: builder where
  "dark_builder =
     \<lparr>styles = [], fg_color = Some ''38;2;224;224;224'', bg_color = Some ''48;2;30;30;30'',
      theme = ''dark'', negative = False\<rparr>"

definition light_builder :: builder where
  "light_builder =
     \<lparr>styles = [], fg_color = Some ''38;2;46;46;46'', bg_color = Some ''48;2;240;240;240'',
      theme = ''light'', negative = False\<rparr>"

definition construct_fg_build :: "hsl_branch \<Rightarrow> string \<Rightarrow> int list \<Rightarrow> error + string" where
  "construct_fg_build hsl name rgb =
     (case init hsl name of
        Inl e \<Rightarrow> Inl e
      | Inr self \<Rightarrow>
          (case set_fg_color hsl self None (Some rgb) of
             (Inl e, self') \<Rightarrow> Inl e
           | (Inr u, self') \<Rightarrow> Inr (fst (build self'))))"

definition color_token :: "string \<Rightarrow> bool" where
  "color_token t = (t \<noteq> [] \<and> count_list t CHR '';'' = 4)"

definition swapped_builder :: builder where
  "swapped_builder = snd (build (snd (set_negative dark_builder True)))"

definition same_tokens_builder :: builder where
  "same_tokens_builder =
     snd (set_fg_color normalize_hsl swapped_builder None (Some [224, 224, 224]))"

definition tokens_inv :: "builder \<Rightarrow> bool" where
  "tokens_inv self =
     ((case fg_color self of None \<Rightarrow> True | Some t \<Rightarrow> color_token t)
      \<and> (case bg_color self of None \<Rightarrow> True | Some t \<Rightarrow> color_token t))"

section \<open>Properties of the manifest verifier\<close>

lemma split_acc_blank: "list_all is_space l \<Longrightarrow> split_acc [] l = []"
  by (induction l) auto

lemma blank_no_tokens: "is_blank l \<Longrightarrow> split_ws l = []"
  by (simp add: is_blank_def split_ws_def split_acc_blank)

lemma blank_no_entry: "is_blank l \<Longrightarrow> entry_of l = None"
  by (simp add: entry_of_def blank_no_tokens)

lemma two_tokens: "length xs = 2 \<Longrightarrow> \<exists>a b. xs = [a, b]"
  by (cases xs; cases "tl xs"; auto)

lemma unpack_other: "length xs \<noteq> 2 \<Longrightarrow> (case xs of [a, b] \<Rightarrow> f a b | _ \<Rightarrow> g) = g"
  by (auto split: list.splits)

lemma entries_Cons:
  "entries (l # ls) = (case entry_of l of None \<Rightarrow> entries ls | Some e \<Rightarrow> e # entries ls)"
  by (simp add: entries_def split: option.splits)

lemma scan_found:
  "well_formed ls \<Longrightarrow> recorded_digest dir tf ls = Some d \<Longrightarrow> fs tf = Some (Regular b)
   \<Longrightarrow> snd (scan_manifest H dir fs tf fin ls) = Inr (H b = d)"
proof (induction ls)
  case Nil
  then show ?case by (simp add: recorded_digest_def entries_def)
next
  case (Cons l ls)
  show ?case
  proof (cases "is_blank l")
    case True
    with Cons show ?thesis
      by (simp add: well_formed_def recorded_digest_def entries_Cons blank_no_entry)
  next
    case False
    from False Cons.prems(1) have "length (split_ws l) = 2"
      by (simp add: well_formed_def)
    then obtain n h where nh: "split_ws l = [n, h]"
      using two_tokens by blast
    then have e: "entry_of l = Some (n, h)" by (simp add: entry_of_def)
    show ?thesis
    proof (cases "tf = path_join dir n")
      case True
      with Cons.prems e have "d = h"
        by (simp add: recorded_digest_def entries_Cons names_target_def)
      with True False nh Cons.prems(3) show ?thesis by auto
    next
      case ne: False
      with Cons.prems e have "recorded_digest dir tf ls = Some d"
        by (auto simp add: recorded_digest_def entries_Cons names_target_def)
      with Cons ne False nh show ?thesis by (simp add: well_formed_def)
    qed
  qed
qed

lemma scan_skips_prefix:
  "well_formed pre \<Longrightarrow> recorded_digest dir tf pre = None
   \<Longrightarrow> scan_manifest H dir fs tf fin (pre @ rest) = scan_manifest H dir fs tf fin rest"
proof (induction pre)
  case Nil
  then show ?case by simp
next
  case (Cons l ls)
  show ?case
  proof (cases "is_blank l")
    case True
    with Cons show ?thesis
      by (simp add: well_formed_def recorded_digest_def entries_Cons blank_no_entry)
  next
    case False
    from False Cons.prems(1) have "length (split_ws l) = 2"
      by (simp add: well_formed_def)
    then obtain n h where nh: "split_ws l = [n, h]"
      using two_tokens by blast
    then have e: "entry_of l = Some (n, h)" by (simp add: entry_of_def)
    with Cons.prems have ne: "tf \<noteq> path_join dir n" and "recorded_digest dir tf ls = None"
      by (auto simp add: recorded_digest_def entries_Cons names_target_def split: if_splits)
    with Cons False nh show ?thesis by (simp add: well_formed_def)
  qed
qed

lemma scan_absent:
  "well_formed ls \<Longrightarrow> recorded_digest dir tf ls = None
   \<Longrightarrow> scan_manifest H dir fs tf End_of_file ls
         = ([Ev_print (Msg_not_in_manifest tf)], Inr False)"
  using scan_skips_prefix [of ls dir tf H fs End_of_file "[]"] by simp

lemma scan_returns_at_entry:
  "well_formed pre \<Longrightarrow> recorded_digest dir tf pre = None \<Longrightarrow> split_ws l = [n, h]
   \<Longrightarrow> path_join dir n = tf
   \<Longrightarrow> snd (scan_manifest H dir fs tf fin (pre @ l # post))
         = Inr (case fs tf of Some (Regular b) \<Rightarrow> H b = h | _ \<Rightarrow> False)"
proof -
  assume a: "well_formed pre" "recorded_digest dir tf pre = None" "split_ws l = [n, h]"
    "path_join dir n = tf"
  have "\<not> is_blank l" using a(3) blank_no_tokens by fastforce
  with a(3,4) have "snd (scan_manifest H dir fs tf fin (l # post))
         = Inr (case fs tf of Some (Regular b) \<Rightarrow> H b = h | _ \<Rightarrow> False)"
    by (auto split: option.splits fs_entry.splits)
  with a(1,2) show ?thesis by (simp add: scan_skips_prefix)
qed

lemma scan_reaches_malformed:
  "well_formed pre \<Longrightarrow> recorded_digest dir tf pre = None \<Longrightarrow> \<not> is_blank bad
   \<Longrightarrow> length (split_ws bad) \<noteq> 2
   \<Longrightarrow> scan_manifest H dir fs tf fin (pre @ bad # post) = ([], Inl Unpack_error)"
  by (simp add: scan_skips_prefix unpack_other)

subsection \<open>Evaluation of the samples\<close>

lemma cfg_fields:
  "default_theme default_config = ascii ''monokai''"
  "themes_dir default_config = ascii ''themes.d''"
  "manifest_file default_config = ascii ''MANIFEST''"
  by (simp_all add: default_config_def)

lemma default_target: "target_path default_config None = theme_path"
  by (simp add: target_path_def cfg_fields path_join_def theme_path_def ascii_def)

lemma default_manifest: "manifest_path default_config = manifest_file_path"
  by (simp add: manifest_path_def cfg_fields path_join_def manifest_file_path_def ascii_def)

lemma paths_differ: "theme_path \<noteq> manifest_file_path" "manifest_file_path \<noteq> theme_path"
  by (simp_all add: theme_path_def manifest_file_path_def ascii_def)

lemma join_samples:
  "path_join (ascii ''themes.d'') (ascii ''monokai'') = theme_path"
  "path_join (ascii ''themes.d'') (ascii ''solarized'') \<noteq> theme_path"
  by (simp_all add: path_join_def theme_path_def ascii_def)

lemma line_samples:
  "split_ws (ascii line_monokai) = [ascii ''monokai'', ascii hex_braces]"
  "split_ws (ascii line_monokai_stale) = [ascii ''monokai'', ascii ''ffffffff'']"
  "split_ws (ascii line_solarized) = [ascii ''solarized'', ascii hex_empty]"
  "split_ws (ascii line_solarized_braces) = [ascii ''solarized'', ascii hex_braces]"
  "split_ws (ascii line_three) = [ascii ''one'', ascii ''two'', ascii ''three'']"
  "split_ws (ascii line_garbage) = [ascii ''garbage'']"
  "split_ws (ascii ''\<newline>'') = []"
  by (simp_all add: split_ws_def is_space_def ascii_def line_monokai_def
      line_monokai_stale_def line_solarized_def line_solarized_braces_def line_three_def
      line_garbage_def hex_braces_def hex_empty_def)

lemma blank_samples:
  "\<not> is_blank (ascii line_monokai)" "\<not> is_blank (ascii line_monokai_stale)"
  "\<not> is_blank (ascii line_solarized)" "\<not> is_blank (ascii line_solarized_braces)"
  "\<not> is_blank (ascii line_three)" "\<not> is_blank (ascii line_garbage)"
  "is_blank (ascii ''\<newline>'')"
  by (simp_all add: is_blank_def is_space_def ascii_def line_monokai_def
      line_monokai_stale_def line_solarized_def line_solarized_braces_def line_three_def
      line_garbage_def)

lemma reader_samples:
  "ascii_reader manifest_listed
     = ([ascii line_solarized, ascii ''\<newline>'', ascii line_monokai,
         ascii line_monokai_stale], End_of_file)"
  "ascii_reader line_monokai = ([ascii line_monokai], End_of_file)"
  "ascii_reader line_solarized_braces = ([ascii line_solarized_braces], End_of_file)"
  "ascii_reader line_garbage = ([ascii line_garbage], End_of_file)"
  "ascii_reader manifest_late_garbage
     = ([ascii line_monokai, ascii line_garbage], End_of_file)"
  "ascii_reader manifest_early_garbage
     = ([ascii line_solarized, ascii line_three, ascii line_monokai], End_of_file)"
  by (simp_all add: ascii_reader_def ascii_def manifest_listed_def manifest_late_garbage_def
      manifest_early_garbage_def line_monokai_def line_monokai_stale_def
      line_solarized_def line_solarized_braces_def line_three_def line_garbage_def
      hex_braces_def hex_empty_def)

lemma sample_digests:
  "sample_sha256 ''{}'' = ascii hex_braces" "sample_sha256 [] = ascii hex_empty"
  "ascii hex_empty \<noteq> ascii hex_braces" "ascii hex_braces \<noteq> ascii ''ffffffff''"
  by (simp_all add: sample_sha256_def hex_braces_def hex_empty_def ascii_def)

section \<open>Claims about the manifest verifier\<close>

text \<open>
  C1. For a theme file that exists with byte contents \<open>bytes\<close> and has a matching
  entry in a readable, well-formed manifest (the lines read from it are blank or have
  exactly two tokens), \<open>validate_theme\<close> returns true if and only if the digest of
  \<open>bytes\<close> is string-equal to the digest recorded on the first manifest line whose file
  name, joined with the themes directory, equals the target path. The digest function
  and the reader are arbitrary, so this holds for the lowercase hex SHA-256 digest and
  for the codec of any platform.
\<close>

theorem verify_iff_digest_matches:
  assumes "fs (target_path cfg arg) = Some (Regular bytes)"
    and "fs (manifest_path cfg) = Some (Regular mtext)"
    and "R mtext = (ls, fin)"
    and "well_formed ls"
    and "recorded_digest (themes_dir cfg) (target_path cfg arg) ls = Some d"
  shows "snd (validate_theme H R cfg fs arg) = Inr (H bytes = d)"
proof -
  have "snd (scan_manifest H (themes_dir cfg) fs (target_path cfg arg) fin ls)
          = Inr (H bytes = d)"
    using assms(4) assms(5) assms(1) by (rule scan_found)
  with assms(1) assms(2) assms(3) show ?thesis
    by (simp add: validate_theme_def Let_def case_prod_unfold)
qed

theorem verify_iff_digest_matches_witness:
  "fs_listed (target_path default_config None) = Some (Regular ''{}'')
   \<and> fs_listed (manifest_path default_config) = Some (Regular manifest_listed)
   \<and> fs_tampered (target_path default_config None) = Some (Regular [])
   \<and> fs_tampered (manifest_path default_config) = Some (Regular manifest_listed)
   \<and> ascii_reader manifest_listed
        = ([ascii line_solarized, ascii ''\<newline>'', ascii line_monokai,
            ascii line_monokai_stale], End_of_file)
   \<and> well_formed [ascii line_solarized, ascii ''\<newline>'', ascii line_monokai,
                    ascii line_monokai_stale]
   \<and> recorded_digest (themes_dir default_config) (target_path default_config None)
         [ascii line_solarized, ascii ''\<newline>'', ascii line_monokai,
          ascii line_monokai_stale] = Some (ascii hex_braces)
   \<and> snd (validate_theme sample_sha256 ascii_reader default_config fs_listed None) = Inr True
   \<and> snd (validate_theme sample_sha256 ascii_reader default_config fs_tampered None)
        = Inr False"
proof -
  have h1: "fs_listed (target_path default_config None) = Some (Regular ''{}'')"
    and h2: "fs_listed (manifest_path default_config) = Some (Regular manifest_listed)"
    and t1: "fs_tampered (target_path default_config None) = Some (Regular [])"
    and t2: "fs_tampered (manifest_path default_config) = Some (Regular manifest_listed)"
    by (simp_all add: default_target default_manifest fs_listed_def fs_tampered_def
        paths_differ)
  note h3 = reader_samples(1)
  have h4: "well_formed [ascii line_solarized, ascii ''\<newline>'', ascii line_monokai,
                    ascii line_monokai_stale]"
    by (simp add: well_formed_def line_samples blank_samples)
  have h5: "recorded_digest (themes_dir default_config) (target_path default_config None)
         [ascii line_solarized, ascii ''\<newline>'', ascii line_monokai,
          ascii line_monokai_stale] = Some (ascii hex_braces)"
    by (simp add: recorded_digest_def entries_Cons entry_of_def
        line_samples names_target_def cfg_fields default_target join_samples)
  show ?thesis
    using h1 h2 t1 t2 h3 h4 h5
      verify_iff_digest_matches [where H = sample_sha256 and R = ascii_reader
        and fs = fs_listed, OF h1 h2 h3 h4 h5]
      verify_iff_digest_matches [where H = sample_sha256 and R = ascii_reader
        and fs = fs_tampered, OF t1 t2 h3 h4 h5]
    by (simp add: sample_digests)
qed

text \<open>
  C6. For a theme file path that does not exist, \<open>validate_theme\<close> tests the path,
  prints that the file does not exist and returns false; the manifest is neither opened
  nor read, whatever the file system holds at the manifest's path.
\<close>

theorem missing_theme_file_short_circuits:
  assumes "fs (target_path cfg arg) = None"
  shows "validate_theme H R cfg fs arg =
           ([Ev_exists (target_path cfg arg), Ev_print (Msg_not_exist (target_path cfg arg))],
            Inr False)
         \<and> Ev_open (manifest_path cfg) \<notin> set (fst (validate_theme H R cfg fs arg))"
  using assms by (simp add: validate_theme_def Let_def)

theorem missing_theme_file_short_circuits_witness:
  "fs_no_theme (target_path default_config None) = None
   \<and> fs_no_theme (manifest_path default_config) = Some (Regular line_monokai)
   \<and> validate_theme sample_sha256 ascii_reader default_config fs_no_theme None =
        ([Ev_exists theme_path, Ev_print (Msg_not_exist theme_path)], Inr False)
   \<and> Ev_open manifest_file_path
        \<notin> set (fst (validate_theme sample_sha256 ascii_reader default_config fs_no_theme None))"
proof -
  have h: "fs_no_theme (target_path default_config None) = None"
    and m: "fs_no_theme (manifest_path default_config) = Some (Regular line_monokai)"
    by (simp_all add: default_target default_manifest fs_no_theme_def paths_differ)
  show ?thesis
    using h m missing_theme_file_short_circuits
                [where fs = fs_no_theme and cfg = default_config and arg = None
                   and H = sample_sha256 and R = ascii_reader]
    by (simp add: default_target default_manifest)
qed

text \<open>
  C7, as stated: for every existing theme file whose path matches no file name entry in
  the manifest, \<open>validate_theme\<close> scans the whole manifest and returns false. This fails
  when the manifest holds a non-blank line that is not an entry: the theme file exists,
  no entry names it, and the call raises instead of returning false.
\<close>

theorem unlisted_theme_counterexample:
  "fs_only_garbage (target_path default_config None) = Some (Regular ''{}'')
   \<and> fs_only_garbage (manifest_path default_config) = Some (Regular line_garbage)
   \<and> ascii_reader line_garbage = ([ascii line_garbage], End_of_file)
   \<and> split_ws (ascii line_garbage) = [ascii ''garbage'']
   \<and> recorded_digest (themes_dir default_config) (target_path default_config None)
        [ascii line_garbage] = None
   \<and> validate_theme sample_sha256 ascii_reader default_config fs_only_garbage None =
        ([Ev_exists theme_path, Ev_open manifest_file_path], Inl Unpack_error)
   \<and> snd (validate_theme sample_sha256 ascii_reader default_config fs_only_garbage None)
        \<noteq> Inr False"
  by (simp add: validate_theme_def Let_def default_target default_manifest fs_only_garbage_def
      reader_samples recorded_digest_def entries_Cons entry_of_def line_samples
      blank_samples cfg_fields entries_def paths_differ)

text \<open>
  C7, amended: for every existing theme file whose path matches no file name entry in a
  manifest that is read to its end and whose non-blank lines all have exactly two tokens,
  \<open>validate_theme\<close> opens the manifest, scans it to the end, prints that the file is
  not in the manifest and returns false, whatever digests the manifest records and
  whatever the digest of the file is; the theme file is not opened.
\<close>

theorem unlisted_theme_rejected:
  assumes "fs (target_path cfg arg) \<noteq> None"
    and "fs (manifest_path cfg) = Some (Regular mtext)"
    and "R mtext = (ls, End_of_file)"
    and "well_formed ls"
    and "recorded_digest (themes_dir cfg) (target_path cfg arg) ls = None"
  shows "validate_theme H R cfg fs arg =
           ([Ev_exists (target_path cfg arg), Ev_open (manifest_path cfg),
             Ev_print (Msg_not_in_manifest (target_path cfg arg))], Inr False)"
proof -
  have "scan_manifest H (themes_dir cfg) fs (target_path cfg arg) End_of_file ls
          = ([Ev_print (Msg_not_in_manifest (target_path cfg arg))], Inr False)"
    using assms(4) assms(5) by (rule scan_absent)
  with assms(1) assms(2) assms(3) show ?thesis
    by (simp add: validate_theme_def Let_def)
qed

theorem unlisted_theme_rejected_witness:
  "fs_unlisted (target_path default_config None) \<noteq> None
   \<and> fs_unlisted (manifest_path default_config) = Some (Regular line_solarized_braces)
   \<and> ascii_reader line_solarized_braces = ([ascii line_solarized_braces], End_of_file)
   \<and> well_formed [ascii line_solarized_braces]
   \<and> recorded_digest (themes_dir default_config) (target_path default_config None)
        [ascii line_solarized_braces] = None
   \<and> fs_unlisted (target_path default_config None) = Some (Regular ''{}'')
   \<and> sample_sha256 ''{}'' = ascii hex_braces
   \<and> entries [ascii line_solarized_braces] = [(ascii ''solarized'', ascii hex_braces)]
   \<and> validate_theme sample_sha256 ascii_reader default_config fs_unlisted None =
        ([Ev_exists theme_path, Ev_open manifest_file_path,
          Ev_print (Msg_not_in_manifest theme_path)], Inr False)"
proof -
  have h1: "fs_unlisted (target_path default_config None) \<noteq> None"
    by (simp add: default_target fs_unlisted_def)
  have h2: "fs_unlisted (manifest_path default_config) = Some (Regular line_solarized_braces)"
    by (simp add: default_manifest fs_unlisted_def)
  note h3 = reader_samples(3)
  have h4: "well_formed [ascii line_solarized_braces]"
    by (simp add: well_formed_def line_samples)
  have h5: "recorded_digest (themes_dir default_config) (target_path default_config None)
        [ascii line_solarized_braces] = None"
    by (simp add: recorded_digest_def entries_Cons entry_of_def
        line_samples names_target_def cfg_fields default_target join_samples entries_def)
  have e: "fs_unlisted (target_path default_config None) = Some (Regular ''{}'')"
    "entries [ascii line_solarized_braces] = [(ascii ''solarized'', ascii hex_braces)]"
    by (simp_all add: default_target fs_unlisted_def entries_Cons paths_differ
        entry_of_def line_samples entries_def)
  show ?thesis
    using h1 h2 h3 h4 h5 e
      unlisted_theme_rejected [where H = sample_sha256 and R = ascii_reader
        and fs = fs_unlisted, OF h1 h2 h3 h4 h5]
    by (simp add: sample_digests default_target default_manifest)
qed

text \<open>
  C5, as stated: a non-blank manifest line without exactly two tokens makes the call
  raise. This fails when an entry for the target path stands before that line: the scan
  returns at the entry and never parses the later line.
\<close>

theorem malformed_line_after_match_counterexample:
  "fs_late_garbage (target_path default_config None) = Some (Regular ''{}'')
   \<and> fs_late_garbage (manifest_path default_config) = Some (Regular manifest_late_garbage)
   \<and> ascii_reader manifest_late_garbage
        = ([ascii line_monokai, ascii line_garbage], End_of_file)
   \<and> \<not> is_blank (ascii line_garbage)
   \<and> split_ws (ascii line_garbage) = [ascii ''garbage'']
   \<and> validate_theme sample_sha256 ascii_reader default_config fs_late_garbage None =
        ([Ev_exists theme_path, Ev_open manifest_file_path, Ev_open theme_path], Inr True)"
  by (simp add: validate_theme_def Let_def default_target default_manifest fs_late_garbage_def
      reader_samples line_samples blank_samples sample_digests cfg_fields join_samples
      paths_differ)

text \<open>
  C5, amended: when the theme file exists and the manifest can be opened, (1) a
  non-blank line without exactly two tokens that the scan reaches (every line read before
  it is blank or an entry for another path) makes \<open>validate_theme\<close> raise the unpacking
  error, which is not caught, so no result is returned and nothing is printed; (2) at
  the first entry for the target path (every line before it blank or an entry for
  another path) the call returns a boolean, true exactly when the theme file can be read
  and its digest is the recorded one, and no line after that entry is parsed: the result
  is the same whatever lines follow and however the reading would end; and (3) a
  manifest that cannot be opened (absent, or \<open>open\<close> raises \<open>OSError\<close>) makes
  \<open>validate_theme\<close> return false.
\<close>

theorem malformed_line_raises_when_reached:
  "(fs (target_path cfg arg) \<noteq> None \<and> fs (manifest_path cfg) = Some (Regular mtext)
      \<and> R mtext = (pre @ bad # post, fin) \<and> well_formed pre
      \<and> recorded_digest (themes_dir cfg) (target_path cfg arg) pre = None
      \<and> \<not> is_blank bad \<and> length (split_ws bad) \<noteq> 2
    \<longrightarrow> validate_theme H R cfg fs arg =
          ([Ev_exists (target_path cfg arg), Ev_open (manifest_path cfg)], Inl Unpack_error))
   \<and> (fs (target_path cfg arg) \<noteq> None \<and> fs (manifest_path cfg) = Some (Regular mtext)
      \<and> R mtext = (pre @ l # post, fin) \<and> well_formed pre
      \<and> recorded_digest (themes_dir cfg) (target_path cfg arg) pre = None
      \<and> split_ws l = [n, h] \<and> path_join (themes_dir cfg) n = target_path cfg arg
    \<longrightarrow> snd (validate_theme H R cfg fs arg) =
          Inr (case fs (target_path cfg arg) of
                 Some (Regular bytes) \<Rightarrow> H bytes = h | _ \<Rightarrow> False))
   \<and> (fs (manifest_path cfg) = None \<or> fs (manifest_path cfg) = Some No_access
    \<longrightarrow> snd (validate_theme H R cfg fs arg) = Inr False)"
proof (intro conjI impI)
  assume a: "fs (target_path cfg arg) \<noteq> None \<and> fs (manifest_path cfg) = Some (Regular mtext)
      \<and> R mtext = (pre @ bad # post, fin) \<and> well_formed pre
      \<and> recorded_digest (themes_dir cfg) (target_path cfg arg) pre = None
      \<and> \<not> is_blank bad \<and> length (split_ws bad) \<noteq> 2"
  then have "scan_manifest H (themes_dir cfg) fs (target_path cfg arg) fin (pre @ bad # post)
               = ([], Inl Unpack_error)"
    by (intro scan_reaches_malformed) simp_all
  with a show "validate_theme H R cfg fs arg =
          ([Ev_exists (target_path cfg arg), Ev_open (manifest_path cfg)], Inl Unpack_error)"
    by (simp add: validate_theme_def Let_def)
next
  assume a: "fs (target_path cfg arg) \<noteq> None \<and> fs (manifest_path cfg) = Some (Regular mtext)
      \<and> R mtext = (pre @ l # post, fin) \<and> well_formed pre
      \<and> recorded_digest (themes_dir cfg) (target_path cfg arg) pre = None
      \<and> split_ws l = [n, h] \<and> path_join (themes_dir cfg) n = target_path cfg arg"
  then have "snd (scan_manifest H (themes_dir cfg) fs (target_path cfg arg) fin
                    (pre @ l # post))
               = Inr (case fs (target_path cfg arg) of
                        Some (Regular bytes) \<Rightarrow> H bytes = h | _ \<Rightarrow> False)"
    using scan_returns_at_entry [where pre = pre and dir = "themes_dir cfg"
        and tf = "target_path cfg arg" and l = l and n = n and h = h and H = H and fs = fs
        and fin = fin and post = post]
    by simp
  with a show "snd (validate_theme H R cfg fs arg) =
          Inr (case fs (target_path cfg arg) of
                 Some (Regular bytes) \<Rightarrow> H bytes = h | _ \<Rightarrow> False)"
    by (simp add: validate_theme_def Let_def case_prod_unfold)
next
  assume "fs (manifest_path cfg) = None \<or> fs (manifest_path cfg) = Some No_access"
  then show "snd (validate_theme H R cfg fs arg) = Inr False"
    by (auto simp add: validate_theme_def Let_def)
qed

theorem malformed_line_raises_when_reached_witness:
  "fs_early_garbage (target_path default_config None) \<noteq> None
   \<and> fs_early_garbage (manifest_path default_config) = Some (Regular manifest_early_garbage)
   \<and> ascii_reader manifest_early_garbage
        = ([ascii line_solarized] @ ascii line_three # [ascii line_monokai], End_of_file)
   \<and> well_formed [ascii line_solarized]
   \<and> recorded_digest (themes_dir default_config) (target_path default_config None)
        [ascii line_solarized] = None
   \<and> \<not> is_blank (ascii line_three)
   \<and> length (split_ws (ascii line_three)) \<noteq> 2
   \<and> validate_theme sample_sha256 ascii_reader default_config fs_early_garbage None =
        ([Ev_exists theme_path, Ev_open manifest_file_path], Inl Unpack_error)
   \<and> fs_late_garbage (target_path default_config None) = Some (Regular ''{}'')
   \<and> fs_late_garbage (manifest_path default_config) = Some (Regular manifest_late_garbage)
   \<and> ascii_reader manifest_late_garbage
        = ([] @ ascii line_monokai # [ascii line_garbage], End_of_file)
   \<and> split_ws (ascii line_monokai) = [ascii ''monokai'', ascii hex_braces]
   \<and> path_join (themes_dir default_config) (ascii ''monokai'')
        = target_path default_config None
   \<and> snd (validate_theme sample_sha256 ascii_reader default_config fs_late_garbage None)
        = Inr True
   \<and> fs_manifest_dir (manifest_path default_config) = Some No_access
   \<and> snd (validate_theme sample_sha256 ascii_reader default_config fs_manifest_dir None)
        = Inr False"
proof -
  have h: "fs_early_garbage (target_path default_config None) \<noteq> None
   \<and> fs_early_garbage (manifest_path default_config) = Some (Regular manifest_early_garbage)
   \<and> ascii_reader manifest_early_garbage
        = ([ascii line_solarized] @ ascii line_three # [ascii line_monokai], End_of_file)
   \<and> well_formed [ascii line_solarized]
   \<and> recorded_digest (themes_dir default_config) (target_path default_config None)
        [ascii line_solarized] = None
   \<and> \<not> is_blank (ascii line_three)
   \<and> length (split_ws (ascii line_three)) \<noteq> 2"
    by (simp add: default_target default_manifest fs_early_garbage_def reader_samples
        well_formed_def line_samples blank_samples recorded_digest_def entries_Cons
        entry_of_def names_target_def cfg_fields join_samples entries_def paths_differ)
  have k: "fs_late_garbage (target_path default_config None) \<noteq> None
   \<and> fs_late_garbage (manifest_path default_config) = Some (Regular manifest_late_garbage)
   \<and> ascii_reader manifest_late_garbage
        = ([] @ ascii line_monokai # [ascii line_garbage], End_of_file)
   \<and> well_formed []
   \<and> recorded_digest (themes_dir default_config) (target_path default_config None) [] = None
   \<and> split_ws (ascii line_monokai) = [ascii ''monokai'', ascii hex_braces]
   \<and> path_join (themes_dir default_config) (ascii ''monokai'')
        = target_path default_config None"
    by (simp add: default_target default_manifest fs_late_garbage_def reader_samples
        well_formed_def line_samples recorded_digest_def cfg_fields join_samples
        entries_def paths_differ)
  have kk: "fs_late_garbage (target_path default_config None) = Some (Regular ''{}'')"
    by (simp add: default_target fs_late_garbage_def paths_differ)
  have g: "fs_manifest_dir (manifest_path default_config) = Some No_access"
    by (simp add: default_manifest fs_manifest_dir_def)
  from h k kk g
    malformed_line_raises_when_reached [where fs = fs_early_garbage and cfg = default_config
      and arg = None and mtext = manifest_early_garbage and R = ascii_reader
      and pre = "[ascii line_solarized]" and bad = "ascii line_three"
      and post = "[ascii line_monokai]" and fin = End_of_file and H = sample_sha256]
    malformed_line_raises_when_reached [where fs = fs_late_garbage and cfg = default_config
      and arg = None and mtext = manifest_late_garbage and R = ascii_reader
      and pre = "[]" and l = "ascii line_monokai" and post = "[ascii line_garbage]"
      and fin = End_of_file and n = "ascii ''monokai''" and h = "ascii hex_braces"
      and H = sample_sha256]
    malformed_line_raises_when_reached [where fs = fs_manifest_dir and cfg = default_config
      and arg = None and R = ascii_reader and H = sample_sha256]
  show ?thesis
    by (simp add: default_target default_manifest sample_digests)
qed

section \<open>Properties of the escape code builder\<close>

lemma hex_not_special:
  assumes "hex_digit c = Some v"
  shows "\<not> is_number_space c" "c \<noteq> CHR ''-''" "c \<noteq> CHR ''+''" "c \<noteq> CHR ''_''"
    "c \<noteq> CHR ''x''" "c \<noteq> CHR ''X''" "c \<noteq> CHR ''#''" "in_literal c"
  using assms by (auto simp: is_number_space_def hex_digit_def in_literal_def Let_def split: if_splits)

lemma py_int16_pair:
  assumes a: "hex_digit a = Some x" and b: "hex_digit b = Some y"
  shows "py_int16 [a, b] = Some (int (16 * x + y))"
  using hex_not_special [OF a] hex_not_special [OF b] a b
  by (simp add: py_int16_def strip_base_prefix_def valid_body_def Let_def)

lemma hex_digit_samples:
  "hex_digit CHR ''0'' = Some 0" "hex_digit CHR ''1'' = Some 1" "hex_digit CHR ''2'' = Some 2"
  "hex_digit CHR ''4'' = Some 4" "hex_digit CHR ''7'' = Some 7" "hex_digit CHR ''8'' = Some 8"
  "hex_digit CHR ''e'' = Some 14" "hex_digit CHR ''f'' = Some 15"
  by (simp_all add: hex_digit_def)

lemma str_nat_samples:
  "str_nat 1 = ''1''" "str_nat 2 = ''2''" "str_nat 3 = ''3''" "str_nat 30 = ''30''"
  "str_nat 46 = ''46''" "str_nat 224 = ''224''" "str_nat 240 = ''240''"
  by (simp_all add: str_nat.simps)

lemma norm_samples:
  "normalize_color hsl ''#e0e0e0'' = Inr (224, 224, 224)"
  "normalize_color hsl ''#1e1e1e'' = Inr (30, 30, 30)"
  "normalize_color hsl ''#2e2e2e'' = Inr (46, 46, 46)"
  "normalize_color hsl ''#f0f0f0'' = Inr (240, 240, 240)"
  "normalize_color hsl ''#fff'' = Inr (255, 255, 255)"
  "normalize_color hsl ''#ffffff'' = Inr (255, 255, 255)"
  "normalize_color hsl ''#072448'' = Inr (7, 36, 72)"
  by (simp_all add: normalize_color_def py_int16_pair hex_digit_samples)

lemma str_nat_digits: "set (str_nat n) \<subseteq> set ''0123456789''"
proof (induction n rule: str_nat.induct)
  case (1 n)
  show ?case
  proof (cases "n < 10")
    case True
    then have "''0123456789'' ! n \<in> set ''0123456789''"
      by (intro nth_mem) simp
    with True show ?thesis by (subst str_nat.simps) simp
  next
    case False
    have "''0123456789'' ! (n mod 10) \<in> set ''0123456789''"
      by (intro nth_mem) simp
    with False 1 show ?thesis by (subst str_nat.simps) auto
  qed
qed

lemma str_nat_nonempty: "str_nat n \<noteq> []"
  by (subst str_nat.simps) simp

lemma str_int_no_semicolon: "count_list (str_int i) CHR '';'' = 0"
proof -
  have "CHR '';'' \<notin> set (str_nat n)" for n
    using str_nat_digits [of n] by auto
  then show ?thesis by (simp add: str_int_def count_list_0_iff)
qed

lemma sgr_token_38: "color_token (sgr_token ''38'' c)"
  by (cases c) (simp add: color_token_def sgr_token_def str_int_no_semicolon)

lemma sgr_token_48: "color_token (sgr_token ''48'' c)"
  by (cases c) (simp add: color_token_def sgr_token_def str_int_no_semicolon)

lemma same_count_split:
  "count_list f s = count_list g s \<Longrightarrow> f @ s # x = g @ s # y \<Longrightarrow> f = g"
proof (induction f arbitrary: g)
  case Nil
  then show ?case by (cases g) (auto split: if_splits)
next
  case (Cons c f)
  then show ?case by (cases g) (auto split: if_splits)
qed

lemma str_int_samples:
  "str_int 1 = ''1''" "str_int 2 = ''2''" "str_int 3 = ''3''" "str_int 30 = ''30''"
  "str_int 46 = ''46''" "str_int 224 = ''224''" "str_int 240 = ''240''"
  by (simp_all add: str_int_def str_nat.simps)

lemma default_colors_samples:
  "DEFAULT_COLORS ''dark'' = Some (''#e0e0e0'', ''#1e1e1e'')"
  "DEFAULT_COLORS ''light'' = Some (''#2e2e2e'', ''#f0f0f0'')"
  by (simp_all add: DEFAULT_COLORS_def)

lemma default_colors_other:
  "name \<noteq> ''dark'' \<Longrightarrow> name \<noteq> ''light'' \<Longrightarrow> DEFAULT_COLORS name = None"
  by (simp add: DEFAULT_COLORS_def)

lemma limit_samples:
  "within_str_limit (224, 224, 224)" "within_str_limit (30, 30, 30)"
  "within_str_limit (46, 46, 46)" "within_str_limit (240, 240, 240)"
  "within_str_limit (1, 2, 3)"
  by (simp_all add: within_str_limit_def str_nat.simps)

lemma init_dark: "init hsl ''dark'' = Inr dark_builder"
  by (simp add: init_def set_default_colors_def default_colors_samples set_fg_color_def
      set_bg_color_def color_argument_def norm_samples sgr_token_def str_int_samples
      dark_builder_def limit_samples)

lemma init_light: "init hsl ''light'' = Inr light_builder"
  by (simp add: init_def set_default_colors_def default_colors_samples set_fg_color_def
      set_bg_color_def color_argument_def norm_samples sgr_token_def str_int_samples
      light_builder_def limit_samples)

lemma set_fg_rgb_123:
  "set_fg_color hsl self None (Some [1, 2, 3]) = (Inr (), self\<lparr>fg_color := Some ''38;2;1;2;3''\<rparr>)"
  by (simp add: set_fg_color_def color_argument_def sgr_token_def str_int_samples
      limit_samples)

lemma set_fg_color_inv: "tokens_inv self \<Longrightarrow> tokens_inv (snd (set_fg_color hsl self color rgb))"
  by (simp add: set_fg_color_def tokens_inv_def sgr_token_38 split: sum.splits)

lemma set_bg_color_inv: "tokens_inv self \<Longrightarrow> tokens_inv (snd (set_bg_color hsl self color rgb))"
  by (simp add: set_bg_color_def tokens_inv_def sgr_token_48 split: sum.splits)

lemma set_default_colors_inv:
  "tokens_inv self \<Longrightarrow> tokens_inv (snd (set_default_colors hsl self))"
  using set_fg_color_inv set_bg_color_inv
  by (auto simp add: set_default_colors_def split: option.splits prod.splits sum.splits)
     (metis snd_conv)+

lemma set_theme_inv: "tokens_inv self \<Longrightarrow> tokens_inv (snd (set_theme hsl self name))"
proof -
  assume "tokens_inv self"
  then have "tokens_inv (self\<lparr>theme := name\<rparr>)" by (simp add: tokens_inv_def)
  then show ?thesis unfolding set_theme_def by (rule set_default_colors_inv)
qed

lemma init_inv: "init hsl name = Inr self \<Longrightarrow> tokens_inv self"
  using set_default_colors_inv
    [of "\<lparr>styles = [], fg_color = None, bg_color = None, theme = name, negative = False\<rparr>" hsl]
  by (auto simp add: init_def tokens_inv_def split: prod.splits sum.splits)

lemma styles_negative_inv:
  "tokens_inv self \<Longrightarrow> tokens_inv (snd (set_bold self en))"
  "tokens_inv self \<Longrightarrow> tokens_inv (snd (set_italic self en))"
  "tokens_inv self \<Longrightarrow> tokens_inv (snd (set_underline self en))"
  "tokens_inv self \<Longrightarrow> tokens_inv (snd (set_negative self en))"
  by (simp_all add: set_bold_def set_italic_def set_underline_def set_negative_def tokens_inv_def)

lemma build_inv: "tokens_inv self \<Longrightarrow> tokens_inv (snd (build self))"
  by (simp add: build_def tokens_inv_def Let_def)

section \<open>Claims about the escape code builder\<close>

text \<open>
  C2, as stated: on a freshly constructed builder on which only
  \<open>set_fg_color(rgb=(1, 2, 3))\<close> was called, \<open>build()\<close> returns exactly
  \<open>ESC [38;2;1;2;3m\<close>, with no background token. This fails: the constructor has
  stored the theme's default background, and \<open>build\<close> renders it.
\<close>

theorem fresh_fg_build_counterexample:
  "construct_fg_build normalize_hsl ''dark'' [1, 2, 3]
     = Inr (CHR 0x1B # ''[38;2;1;2;3;48;2;30;30;30m'')
   \<and> construct_fg_build normalize_hsl ''dark'' [1, 2, 3] \<noteq> Inr (CHR 0x1B # ''[38;2;1;2;3m'')"
  by (simp add: construct_fg_build_def init_dark set_fg_rgb_123 build_def stored_def
      dark_builder_def)

text \<open>
  C2, amended: on a freshly constructed builder on which only
  \<open>set_fg_color(rgb=(1, 2, 3))\<close> was called, \<open>build()\<close> returns the foreground token
  \<open>38;2;1;2;3\<close> followed by the default background token of the theme:
  \<open>ESC [38;2;1;2;3;48;2;30;30;30m\<close> for the dark theme (the default) and
  \<open>ESC [38;2;1;2;3;48;2;240;240;240m\<close> for the light theme.
\<close>

theorem fresh_fg_build_has_default_bg:
  "construct_fg_build hsl ''dark'' [1, 2, 3] = Inr (CHR 0x1B # ''[38;2;1;2;3;48;2;30;30;30m'')
   \<and> construct_fg_build hsl ''light'' [1, 2, 3]
        = Inr (CHR 0x1B # ''[38;2;1;2;3;48;2;240;240;240m'')"
  by (simp add: construct_fg_build_def init_dark init_light set_fg_rgb_123 build_def stored_def
      dark_builder_def light_builder_def)

text \<open>
  C3, as stated: after construction the stored foreground and background tokens change
  only through the color setters or a theme switch; no other operation, \<open>build()\<close>
  included, modifies them. This fails: with the negative flag set, \<open>build()\<close> stores the
  two tokens swapped.
\<close>

theorem build_modifies_colors_counterexample:
  "init normalize_hsl ''dark'' = Inr dark_builder
   \<and> fg_color (snd (set_negative dark_builder True)) = Some ''38;2;224;224;224''
   \<and> bg_color (snd (set_negative dark_builder True)) = Some ''48;2;30;30;30''
   \<and> fg_color (snd (build (snd (set_negative dark_builder True)))) = Some ''48;2;30;30;30''
   \<and> bg_color (snd (build (snd (set_negative dark_builder True)))) = Some ''38;2;224;224;224''
   \<and> fg_color (snd (build (snd (set_negative dark_builder True))))
        \<noteq> fg_color (snd (set_negative dark_builder True))"
  by (simp add: init_dark set_negative_def build_def dark_builder_def)

text \<open>
  C3, amended: construction stores the default tokens of the theme (dark:
  \<open>38;2;224;224;224\<close> and \<open>48;2;30;30;30\<close>; light: \<open>38;2;46;46;46\<close> and
  \<open>48;2;240;240;240\<close>). The style setters and \<open>set_negative\<close> leave both tokens as they
  are, and so does \<open>build()\<close> while the negative flag is clear; \<open>build()\<close> with the
  negative flag set stores the two tokens swapped. So the tokens change only through the
  color setters, a theme switch, or a \<open>build()\<close> in negative mode.
\<close>

theorem colors_change_only_by_setters_or_negative_build:
  "init hsl ''dark'' =
     Inr \<lparr>styles = [], fg_color = Some ''38;2;224;224;224'', bg_color = Some ''48;2;30;30;30'',
          theme = ''dark'', negative = False\<rparr>
   \<and> init hsl ''light'' =
     Inr \<lparr>styles = [], fg_color = Some ''38;2;46;46;46'', bg_color = Some ''48;2;240;240;240'',
          theme = ''light'', negative = False\<rparr>
   \<and> fg_color (snd (set_bold self en)) = fg_color self
   \<and> bg_color (snd (set_bold self en)) = bg_color self
   \<and> fg_color (snd (set_italic self en)) = fg_color self
   \<and> bg_color (snd (set_italic self en)) = bg_color self
   \<and> fg_color (snd (set_underline self en)) = fg_color self
   \<and> bg_color (snd (set_underline self en)) = bg_color self
   \<and> fg_color (snd (set_negative self en)) = fg_color self
   \<and> bg_color (snd (set_negative self en)) = bg_color self
   \<and> fg_color (snd (build self)) = (if negative self then bg_color self else fg_color self)
   \<and> bg_color (snd (build self)) = (if negative self then fg_color self else bg_color self)"
  by (simp add: init_dark init_light dark_builder_def light_builder_def set_bold_def
      set_italic_def set_underline_def set_negative_def build_def Let_def)

theorem colors_change_only_by_setters_or_negative_build_witness:
  "negative (snd (set_negative dark_builder True))
   \<and> fg_color (snd (build (snd (set_negative dark_builder True)))) = Some ''48;2;30;30;30''
   \<and> bg_color (snd (build (snd (set_negative dark_builder True)))) = Some ''38;2;224;224;224''
   \<and> \<not> negative dark_builder
   \<and> fg_color (snd (build dark_builder)) = Some ''38;2;224;224;224''
   \<and> bg_color (snd (build dark_builder)) = Some ''48;2;30;30;30''"
  using colors_change_only_by_setters_or_negative_build
          [of normalize_hsl "snd (set_negative dark_builder True)" True]
        colors_change_only_by_setters_or_negative_build [of normalize_hsl dark_builder True]
  by (simp add: set_negative_def dark_builder_def)

text \<open>
  C4, as stated: for every builder with both tokens stored and the negative flag set, two
  calls of \<open>build()\<close> in succession give two different outputs. This fails for a builder
  whose two stored tokens are the same text, which the methods can reach: after a
  \<open>build()\<close> in negative mode the foreground slot holds the former background token
  and the background slot the former foreground token \<open>38;2;224;224;224\<close>, and
  \<open>set_fg_color(rgb=(224, 224, 224))\<close> then stores that same text in the foreground slot.
\<close>

theorem negative_build_twice_counterexample:
  "swapped_builder = snd (build (snd (set_negative dark_builder True)))
   \<and> same_tokens_builder
        = snd (set_fg_color normalize_hsl swapped_builder None (Some [224, 224, 224]))
   \<and> fg_color same_tokens_builder = Some ''38;2;224;224;224''
   \<and> bg_color same_tokens_builder = Some ''38;2;224;224;224''
   \<and> negative same_tokens_builder
   \<and> fst (build same_tokens_builder)
        = CHR 0x1B # ''[38;2;224;224;224;38;2;224;224;224m''
   \<and> fst (build (snd (build same_tokens_builder)))
        = CHR 0x1B # ''[38;2;224;224;224;38;2;224;224;224m''"
  by (simp add: same_tokens_builder_def swapped_builder_def set_negative_def build_def
      stored_def dark_builder_def set_fg_color_def color_argument_def sgr_token_def
      str_int_samples limit_samples)

text \<open>
  C4, amended: for every builder with both color tokens stored and the negative flag set,
  the first \<open>build()\<close> renders the background token before the foreground token and
  stores them swapped, the second renders them in their first order and restores the
  builder; the two outputs differ exactly when the two stored tokens differ.
\<close>

theorem negative_build_twice:
  assumes "fg_color self = Some f" and "bg_color self = Some g"
    and "color_token f" and "color_token g" and "negative self"
  shows "build self =
           (CHR 0x1B # CHR ''['' # join '';'' (g # f # styles self) @ ''m'',
            self\<lparr>fg_color := Some g, bg_color := Some f\<rparr>)
         \<and> build (snd (build self)) =
           (CHR 0x1B # CHR ''['' # join '';'' (f # g # styles self) @ ''m'', self)
         \<and> (fst (build self) = fst (build (snd (build self)))) = (f = g)"
proof -
  have ne: "f \<noteq> []" "g \<noteq> []" and cnt: "count_list g CHR '';'' = count_list f CHR '';''"
    using assms(3,4) by (simp_all add: color_token_def)
  have b1: "build self =
           (CHR 0x1B # CHR ''['' # join '';'' (g # f # styles self) @ ''m'',
            self\<lparr>fg_color := Some g, bg_color := Some f\<rparr>)"
    using assms(1,2,5) ne by (simp add: build_def stored_def)
  have b2: "build (self\<lparr>fg_color := Some g, bg_color := Some f\<rparr>) =
           (CHR 0x1B # CHR ''['' # join '';'' (f # g # styles self) @ ''m'', self)"
    using assms(1,2,5) ne by (simp add: build_def stored_def)
  have "f = g" if "join '';'' (g # f # styles self) @ ''m'' = join '';'' (f # g # styles self) @ ''m''"
  proof -
    from that have "g @ CHR '';'' # (join '';'' (f # styles self) @ ''m'')
        = f @ CHR '';'' # (join '';'' (g # styles self) @ ''m'')"
      by simp
    with cnt have "g = f" by (rule same_count_split)
    then show ?thesis by simp
  qed
  then have "(fst (build self) = fst (build (snd (build self)))) = (f = g)"
    using b1 b2 by auto
  with b1 b2 show ?thesis by simp
qed

theorem negative_build_twice_witness:
  "fg_color (snd (set_negative dark_builder True)) = Some ''38;2;224;224;224''
   \<and> bg_color (snd (set_negative dark_builder True)) = Some ''48;2;30;30;30''
   \<and> color_token ''38;2;224;224;224'' \<and> color_token ''48;2;30;30;30''
   \<and> negative (snd (set_negative dark_builder True))
   \<and> fst (build (snd (set_negative dark_builder True)))
        = CHR 0x1B # ''[48;2;30;30;30;38;2;224;224;224m''
   \<and> fst (build (snd (build (snd (set_negative dark_builder True)))))
        = CHR 0x1B # ''[38;2;224;224;224;48;2;30;30;30m''
   \<and> snd (build (snd (build (snd (set_negative dark_builder True)))))
        = snd (set_negative dark_builder True)
   \<and> fst (build (snd (set_negative dark_builder True)))
        \<noteq> fst (build (snd (build (snd (set_negative dark_builder True)))))"
proof -
  have h: "fg_color (snd (set_negative dark_builder True)) = Some ''38;2;224;224;224''"
    "bg_color (snd (set_negative dark_builder True)) = Some ''48;2;30;30;30''"
    "color_token ''38;2;224;224;224''" "color_token ''48;2;30;30;30''"
    "negative (snd (set_negative dark_builder True))"
    by (simp_all add: set_negative_def dark_builder_def color_token_def)
  have st: "styles (snd (set_negative dark_builder True)) = []"
    by (simp add: set_negative_def dark_builder_def)
  note t = negative_build_twice [OF h]
  have o1: "fst (build (snd (set_negative dark_builder True)))
        = CHR 0x1B # ''[48;2;30;30;30;38;2;224;224;224m''"
    using t st by simp
  have B: "build (snd (build (snd (set_negative dark_builder True)))) =
           (CHR 0x1B # CHR ''['' # join '';'' (''38;2;224;224;224'' # ''48;2;30;30;30''
               # styles (snd (set_negative dark_builder True))) @ ''m'',
            snd (set_negative dark_builder True))"
    using t by blast
  have o2: "fst (build (snd (build (snd (set_negative dark_builder True)))))
        = CHR 0x1B # ''[38;2;224;224;224;48;2;30;30;30m''"
    by (simp only: B) (simp add: st)
  have s2: "snd (build (snd (build (snd (set_negative dark_builder True)))))
        = snd (set_negative dark_builder True)"
    by (simp only: B snd_conv)
  have ne: "fst (build (snd (set_negative dark_builder True)))
        \<noteq> fst (build (snd (build (snd (set_negative dark_builder True)))))"
    by (simp only: o1 o2) simp
  show ?thesis by (intro conjI h o1 o2 s2 ne)
qed

text \<open>
  C8. Hex normalization maps \<open>#fff\<close> and \<open>#ffffff\<close> to (255, 255, 255) and
  \<open>#072448\<close> to (7, 36, 72). For a color that starts with \<open>#\<close>, once the leading
  \<open>#\<close> characters are stripped: three hex digits give each digit duplicated to a byte,
  six hex digits give the three byte pairs, and any length other than three and six
  raises the invalid hex format error.
\<close>

theorem hex_normalization:
  "normalize_color hsl ''#fff'' = Inr (255, 255, 255)
   \<and> normalize_color hsl ''#ffffff'' = Inr (255, 255, 255)
   \<and> normalize_color hsl ''#072448'' = Inr (7, 36, 72)
   \<and> (prefix ''#'' color \<and> dropWhile (\<lambda>c. c = CHR ''#'') color = [a, b, c]
        \<and> hex_digit a = Some x \<and> hex_digit b = Some y \<and> hex_digit c = Some z
      \<longrightarrow> normalize_color hsl color
            = Inr (int (16 * x + x), int (16 * y + y), int (16 * z + z)))
   \<and> (prefix ''#'' color \<and> dropWhile (\<lambda>c. c = CHR ''#'') color = [a, a', b, b', c, c']
        \<and> hex_digit a = Some x \<and> hex_digit a' = Some x'
        \<and> hex_digit b = Some y \<and> hex_digit b' = Some y'
        \<and> hex_digit c = Some z \<and> hex_digit c' = Some z'
      \<longrightarrow> normalize_color hsl color
            = Inr (int (16 * x + x'), int (16 * y + y'), int (16 * z + z')))
   \<and> (prefix ''#'' color \<and> length (dropWhile (\<lambda>c. c = CHR ''#'') color) \<noteq> 3
        \<and> length (dropWhile (\<lambda>c. c = CHR ''#'') color) \<noteq> 6
      \<longrightarrow> normalize_color hsl color = Inl Invalid_hex_format)"
  by (simp add: norm_samples) (simp add: normalize_color_def py_int16_pair)

theorem hex_normalization_witness:
  "prefix ''#'' ''#abc'' \<and> dropWhile (\<lambda>c. c = CHR ''#'') ''#abc'' = ''abc''
   \<and> hex_digit CHR ''a'' = Some 10 \<and> hex_digit CHR ''b'' = Some 11
   \<and> hex_digit CHR ''c'' = Some 12
   \<and> normalize_color normalize_hsl ''#abc'' = Inr (170, 187, 204)
   \<and> prefix ''#'' ''#1E90ff'' \<and> dropWhile (\<lambda>c. c = CHR ''#'') ''#1E90ff'' = ''1E90ff''
   \<and> hex_digit CHR ''1'' = Some 1 \<and> hex_digit CHR ''E'' = Some 14
   \<and> hex_digit CHR ''9'' = Some 9 \<and> hex_digit CHR ''0'' = Some 0
   \<and> hex_digit CHR ''f'' = Some 15
   \<and> normalize_color normalize_hsl ''#1E90ff'' = Inr (30, 144, 255)
   \<and> prefix ''#'' ''#ffff'' \<and> length (dropWhile (\<lambda>c. c = CHR ''#'') ''#ffff'') \<noteq> 3
   \<and> length (dropWhile (\<lambda>c. c = CHR ''#'') ''#ffff'') \<noteq> 6
   \<and> normalize_color normalize_hsl ''#ffff'' = Inl Invalid_hex_format"
proof -
  have h: "prefix ''#'' ''#abc''" "dropWhile (\<lambda>c. c = CHR ''#'') ''#abc'' = ''abc''"
    "hex_digit CHR ''a'' = Some 10" "hex_digit CHR ''b'' = Some 11"
    "hex_digit CHR ''c'' = Some 12"
    "prefix ''#'' ''#1E90ff''" "dropWhile (\<lambda>c. c = CHR ''#'') ''#1E90ff'' = ''1E90ff''"
    "hex_digit CHR ''1'' = Some 1" "hex_digit CHR ''E'' = Some 14"
    "hex_digit CHR ''9'' = Some 9" "hex_digit CHR ''0'' = Some 0"
    "hex_digit CHR ''f'' = Some 15"
    "prefix ''#'' ''#ffff''" "length (dropWhile (\<lambda>c. c = CHR ''#'') ''#ffff'') \<noteq> 3"
    "length (dropWhile (\<lambda>c. c = CHR ''#'') ''#ffff'') \<noteq> 6"
    by (simp_all add: hex_digit_def)
  from h
    hex_normalization [of normalize_hsl "''#abc''" "CHR ''a''" "CHR ''b''" "CHR ''c''"
      10 11 12]
    hex_normalization [of normalize_hsl "''#1E90ff''" "CHR ''1''" "CHR ''9''" "CHR ''f''"
      1 9 15 "CHR ''E''" "CHR ''0''" "CHR ''f''" 14 0 15]
    hex_normalization [of normalize_hsl "''#ffff''"]
  show ?thesis by simp
qed

text \<open>
  C10. \<open>set_theme\<close> with a name other than \<open>dark\<close> and \<open>light\<close> raises the
  unsupported theme error after it has overwritten the theme tag: the builder is left
  with the invalid name as its theme, and with its foreground and background tokens as
  they were.
\<close>

theorem failed_set_theme_keeps_invalid_tag:
  assumes "name \<noteq> ''dark''" and "name \<noteq> ''light''"
  shows "set_theme hsl self name = (Inl Unsupported_theme, self\<lparr>theme := name\<rparr>)
         \<and> theme (snd (set_theme hsl self name)) = name
         \<and> DEFAULT_COLORS (theme (snd (set_theme hsl self name))) = None
         \<and> fg_color (snd (set_theme hsl self name)) = fg_color self
         \<and> bg_color (snd (set_theme hsl self name)) = bg_color self"
  using assms by (simp add: set_theme_def set_default_colors_def default_colors_other)

theorem failed_set_theme_keeps_invalid_tag_witness:
  "''solarized'' \<noteq> ''dark'' \<and> ''solarized'' \<noteq> ''light''
   \<and> set_theme normalize_hsl dark_builder ''solarized''
        = (Inl Unsupported_theme, dark_builder\<lparr>theme := ''solarized''\<rparr>)
   \<and> theme (snd (set_theme normalize_hsl dark_builder ''solarized'')) = ''solarized''
   \<and> fg_color (snd (set_theme normalize_hsl dark_builder ''solarized''))
        = Some ''38;2;224;224;224''
   \<and> bg_color (snd (set_theme normalize_hsl dark_builder ''solarized''))
        = Some ''48;2;30;30;30''"
proof -
  have h: "''solarized'' \<noteq> ''dark''" "''solarized'' \<noteq> ''light''" by simp_all
  from failed_set_theme_keeps_invalid_tag [OF h, of normalize_hsl dark_builder] h
  show ?thesis by (simp add: dark_builder_def)
qed

end
